theory Spec2Isabelle
  imports Complex_Main "HOL-Library.Word" "HOL-Library.AList" "HOL-Library.Multiset"
begin

section \<open>JavaScript values\<close>

subsection \<open>Strings\<close>

text \<open>
  A JavaScript string is a sequence of 16-bit code units. ASCII literals are written
  through \<open>ascii\<close>; the few CJK characters the source matches on are given by their
  code units.
\<close>

type_synonym jsstring = "16 word list"

definition ascii :: "string \<Rightarrow> jsstring" where
  "ascii s = map (\<lambda>c. of_nat (of_char c)) s"

text \<open>The regular-expression class \<open>\s\<close> (and the characters \<open>trim\<close> removes):
  ECMAScript WhiteSpace and LineTerminator.\<close>

definition isWhiteSpace :: "16 word \<Rightarrow> bool" where
  "isWhiteSpace c \<longleftrightarrow>
     c \<in> {0x09, 0x0A, 0x0B, 0x0C, 0x0D, 0x20, 0xA0, 0x1680, 0x2028, 0x2029,
           0x202F, 0x205F, 0x3000, 0xFEFF} \<or> (0x2000 \<le> c \<and> c \<le> 0x200A)"

text \<open>The class \<open>\d\<close> (no unicode flag): the ten ASCII digits.\<close>

definition isDigit :: "16 word \<Rightarrow> bool" where
  "isDigit c \<longleftrightarrow> 0x30 \<le> c \<and> c \<le> 0x39"

definition trim :: "jsstring \<Rightarrow> jsstring" where
  "trim s = rev (dropWhile isWhiteSpace (rev (dropWhile isWhiteSpace s)))"

text \<open>\<open>s.split(sep)\<close> for a one-character separator: never empty, \<open>"".split(",")\<close>
  is \<open>[""]\<close>.\<close>

fun split_on :: "16 word \<Rightarrow> jsstring \<Rightarrow> jsstring list" where
  "split_on sep [] = [[]]"
| "split_on sep (c # cs) =
     (if c = sep then [] # split_on sep cs
      else case split_on sep cs of
             [] \<Rightarrow> [[c]]
           | p # ps \<Rightarrow> (c # p) # ps)"

text \<open>\<open>hay.includes(needle)\<close>, the test a regular expression made of literal
  alternatives performs.\<close>

fun starts_with :: "jsstring \<Rightarrow> jsstring \<Rightarrow> bool" where
  "starts_with [] hay = True"
| "starts_with (n # ns) [] = False"
| "starts_with (n # ns) (h # hs) = (n = h \<and> starts_with ns hs)"

fun includes_str :: "jsstring \<Rightarrow> jsstring \<Rightarrow> bool" where
  "includes_str needle [] = (needle = [])"
| "includes_str needle (h # hs) = (starts_with needle (h # hs) \<or> includes_str needle hs)"

subsection \<open>Numbers\<close>

text \<open>
  The Number type: NaN, the two infinities and the finite values. Finite arithmetic is
  exact (the rounding of IEEE doubles and the sign of zero are not modelled); the
  special values follow ECMAScript. Every division of the source is guarded by a
  \<open>> 0\<close> test or has a constant divisor, so the sign a zero divisor would carry never
  matters there.
\<close>

datatype number = NaN | NegInf | Fin real | PosInf

fun isNaN :: "number \<Rightarrow> bool" where
  "isNaN NaN = True"
| "isNaN _ = False"


fun num_neg :: "number \<Rightarrow> number" where
  "num_neg NaN = NaN"
| "num_neg NegInf = PosInf"
| "num_neg PosInf = NegInf"
| "num_neg (Fin a) = Fin (- a)"

fun num_add :: "number \<Rightarrow> number \<Rightarrow> number" where
  "num_add NaN _ = NaN"
| "num_add _ NaN = NaN"
| "num_add PosInf NegInf = NaN"
| "num_add NegInf PosInf = NaN"
| "num_add PosInf _ = PosInf"
| "num_add _ PosInf = PosInf"
| "num_add NegInf _ = NegInf"
| "num_add _ NegInf = NegInf"
| "num_add (Fin a) (Fin b) = Fin (a + b)"

definition num_sub :: "number \<Rightarrow> number \<Rightarrow> number" where
  "num_sub a b = num_add a (num_neg b)"

definition signed_inf :: "bool \<Rightarrow> number" where
  "signed_inf positive = (if positive then PosInf else NegInf)"

fun num_mul :: "number \<Rightarrow> number \<Rightarrow> number" where
  "num_mul NaN _ = NaN"
| "num_mul _ NaN = NaN"
| "num_mul (Fin a) (Fin b) = Fin (a * b)"
| "num_mul (Fin a) PosInf = (if a = 0 then NaN else signed_inf (0 < a))"
| "num_mul (Fin a) NegInf = (if a = 0 then NaN else signed_inf (a < 0))"
| "num_mul PosInf (Fin b) = (if b = 0 then NaN else signed_inf (0 < b))"
| "num_mul NegInf (Fin b) = (if b = 0 then NaN else signed_inf (b < 0))"
| "num_mul PosInf PosInf = PosInf"
| "num_mul NegInf NegInf = PosInf"
| "num_mul PosInf NegInf = NegInf"
| "num_mul NegInf PosInf = NegInf"

fun num_div :: "number \<Rightarrow> number \<Rightarrow> number" where
  "num_div NaN _ = NaN"
| "num_div _ NaN = NaN"
| "num_div (Fin a) (Fin b) =
     (if b = 0 then (if a = 0 then NaN else signed_inf (0 < a)) else Fin (a / b))"
| "num_div (Fin a) _ = Fin 0"
| "num_div PosInf (Fin b) = signed_inf (0 \<le> b)"
| "num_div NegInf (Fin b) = signed_inf (b < 0)"
| "num_div _ _ = NaN"

text \<open>\<open>a < b\<close> and \<open>a <= b\<close>: false as soon as an operand is NaN.\<close>

fun num_less :: "number \<Rightarrow> number \<Rightarrow> bool" where
  "num_less NaN _ = False"
| "num_less _ NaN = False"
| "num_less (Fin a) (Fin b) = (a < b)"
| "num_less _ NegInf = False"
| "num_less NegInf _ = True"
| "num_less PosInf _ = False"
| "num_less _ PosInf = True"

fun num_le :: "number \<Rightarrow> number \<Rightarrow> bool" where
  "num_le NaN _ = False"
| "num_le _ NaN = False"
| "num_le (Fin a) (Fin b) = (a \<le> b)"
| "num_le NegInf _ = True"
| "num_le _ PosInf = True"
| "num_le _ _ = False"

text \<open>\<open>Math.round\<close>: the nearest integer, a tie going up.\<close>

fun Math_round :: "number \<Rightarrow> number" where
  "Math_round (Fin a) = Fin (of_int \<lfloor>a + 1 / 2\<rfloor>)"
| "Math_round n = n"

definition is_odd_integer :: "real \<Rightarrow> bool" where
  "is_odd_integer e \<longleftrightarrow> of_int \<lfloor>e\<rfloor> = e \<and> odd \<lfloor>e\<rfloor>"

text \<open>\<open>Math.pow\<close>, case by case as Number::exponentiate of ECMAScript lists them.\<close>

fun Math_pow :: "number \<Rightarrow> number \<Rightarrow> number" where
  "Math_pow _ NaN = NaN"
| "Math_pow b (Fin e) =
     (if e = 0 then Fin 1
      else case b of
        NaN \<Rightarrow> NaN
      | PosInf \<Rightarrow> (if 0 < e then PosInf else Fin 0)
      | NegInf \<Rightarrow> (if 0 < e then (if is_odd_integer e then NegInf else PosInf) else Fin 0)
      | Fin x \<Rightarrow>
          (if x = 0 then (if 0 < e then Fin 0 else PosInf)
           else if 0 < x then Fin (x powr e)
           else if of_int \<lfloor>e\<rfloor> = e then Fin (x powi \<lfloor>e\<rfloor>)
           else NaN))"
| "Math_pow b PosInf =
     (case b of
        NaN \<Rightarrow> NaN
      | PosInf \<Rightarrow> PosInf
      | NegInf \<Rightarrow> PosInf
      | Fin x \<Rightarrow> (if 1 < \<bar>x\<bar> then PosInf else if \<bar>x\<bar> = 1 then NaN else Fin 0))"
| "Math_pow b NegInf =
     (case b of
        NaN \<Rightarrow> NaN
      | PosInf \<Rightarrow> Fin 0
      | NegInf \<Rightarrow> Fin 0
      | Fin x \<Rightarrow> (if 1 < \<bar>x\<bar> then Fin 0 else if \<bar>x\<bar> = 1 then NaN else PosInf))"

text \<open>The rounding every output field goes through: \<open>Math.round(x * 100) / 100\<close>.\<close>

definition round2 :: "number \<Rightarrow> number" where
  "round2 x = num_div (Math_round (num_mul x (Fin 100))) (Fin 100)"

text \<open>Truthiness of a number: \<open>0\<close> and NaN are falsy.\<close>

definition truthy_num :: "number \<Rightarrow> bool" where
  "truthy_num n \<longleftrightarrow> \<not> isNaN n \<and> n \<noteq> Fin 0"

subsection \<open>Field values and objects\<close>

text \<open>
  What a field of a parsed JSON row holds: a scalar, or \<open>undefined\<close> when the row has
  no such field. A row is the list of its members; a later duplicate wins, as in
  \<open>JSON.parse\<close>.
\<close>

datatype jsval = VUndefined | VNull | VBool bool | VNum number | VStr jsstring

type_synonym jsobject = "(jsstring \<times> jsval) list"

definition get :: "jsobject \<Rightarrow> jsstring \<Rightarrow> jsval" where
  "get row key = (case map_of (rev row) key of None \<Rightarrow> VUndefined | Some v \<Rightarrow> v)"

fun truthy :: "jsval \<Rightarrow> bool" where
  "truthy VUndefined = False"
| "truthy VNull = False"
| "truthy (VBool b) = b"
| "truthy (VNum n) = truthy_num n"
| "truthy (VStr s) = (s \<noteq> [])"

text \<open>\<open>v == null\<close>, and the operator \<open>??\<close>.\<close>

definition nullish :: "jsval \<Rightarrow> bool" where
  "nullish v \<longleftrightarrow> v = VUndefined \<or> v = VNull"

definition coalesce :: "jsval \<Rightarrow> jsval \<Rightarrow> jsval" where
  "coalesce a b = (if nullish a then b else a)"

subsection \<open>The host's library\<close>

text \<open>
  The functions of the JavaScript runtime the source calls and whose results depend on
  number syntax, on date syntax or on the host's time zone are parameters of the model:
  \<^item> \<open>StringToNumber s\<close> is \<open>Number(s)\<close> for a string;
  \<^item> \<open>NumberToString n\<close> is \<open>String(n)\<close> for a number;
  \<^item> \<open>DateTime v\<close> is \<open>new Date(v).getTime()\<close>;
  \<^item> \<open>DateFullYear v\<close> is \<open>new Date(v).getFullYear()\<close> (local time);
  \<^item> \<open>parseInt10 s\<close> is \<open>parseInt(s, 10)\<close> and \<open>parseFloat s\<close> is \<open>parseFloat(s)\<close>.
\<close>

record platform =
  StringToNumber :: "jsstring \<Rightarrow> number"
  NumberToString :: "number \<Rightarrow> jsstring"
  DateTime :: "jsval \<Rightarrow> number"
  DateFullYear :: "jsval \<Rightarrow> number"
  parseInt10 :: "jsstring \<Rightarrow> number"
  parseFloat :: "jsstring \<Rightarrow> number"

text \<open>\<open>Number(v)\<close> and \<open>String(v)\<close>: fixed by ECMAScript but for the parameters above.\<close>

definition Number :: "platform \<Rightarrow> jsval \<Rightarrow> number" where
  "Number P v =
     (case v of
        VUndefined \<Rightarrow> NaN
      | VNull \<Rightarrow> Fin 0
      | VBool b \<Rightarrow> Fin (if b then 1 else 0)
      | VNum n \<Rightarrow> n
      | VStr s \<Rightarrow> StringToNumber P s)"

definition String :: "platform \<Rightarrow> jsval \<Rightarrow> jsstring" where
  "String P v =
     (case v of
        VUndefined \<Rightarrow> ascii ''undefined''
      | VNull \<Rightarrow> ascii ''null''
      | VBool b \<Rightarrow> (if b then ascii ''true'' else ascii ''false'')
      | VNum n \<Rightarrow> NumberToString P n
      | VStr s \<Rightarrow> s)"

subsection \<open>Outbound requests\<close>

text \<open>
  What one \<open>fetch\<close> followed by reading the body comes to: the request itself fails
  (\<open>fetch\<close> rejects), the response has a status that is not successful, the body
  cannot be read or parsed (\<open>res.json()\<close>, \<open>res.text()\<close> or \<open>JSON.parse\<close> throws),
  or the body is parsed. Each function that fetches takes the outcome of its request;
  the arguments of the source that only go into the URL are left out.
\<close>

datatype 'a outcome = Rejected | NotOk nat | Unparsable | Parsed 'a

text \<open>What the source throws, and what the handler of the route catches.\<close>

datatype exn =
    KlineRequestFailed nat
  | KlineNoData
  | NetworkError
  | BodyError
  | TypeError

section \<open>Ticker resolver: \<open>toSecId\<close>\<close>

datatype market = sh | sz

record secid_result =
  secid :: jsstring
  market :: market

definition toSecId :: "jsstring \<Rightarrow> secid_result option" where
  "toSecId symbol =
     (let raw = filter (\<lambda>c. \<not> isWhiteSpace c) symbol in
      if length raw = 6 \<and> list_all isDigit raw then
        (let code = raw; first = take 1 code; first2 = take 2 code in
         if first \<in> set [ascii ''6'', ascii ''5'', ascii ''9'']
           then Some \<lparr>secid = ascii ''1.'' @ code, market = sh\<rparr>
         else if first2 \<in> set [ascii ''51'', ascii ''56'', ascii ''58'']
           then Some \<lparr>secid = ascii ''1.'' @ code, market = sh\<rparr>
         else if first \<in> set [ascii ''0'', ascii ''3'']
           then Some \<lparr>secid = ascii ''0.'' @ code, market = sz\<rparr>
         else if first2 \<in> set [ascii ''15'', ascii ''16'']
           then Some \<lparr>secid = ascii ''0.'' @ code, market = sz\<rparr>
         else None)
      else None)"

text \<open>
  The resolver as the specification words it: strip the whitespace; accept six ASCII
  digits only; the first rule that matches decides.
\<close>

definition resolve_spec :: "jsstring \<Rightarrow> secid_result option" where
  "resolve_spec input =
     (let code = filter (\<lambda>c. \<not> isWhiteSpace c) input in
      if length code \<noteq> 6 \<or> (\<exists>c \<in> set code. \<not> isDigit c) then None
      else if code ! 0 \<in> {0x36, 0x35, 0x39}
              \<or> (code ! 0, code ! 1) \<in> {(0x35, 0x31), (0x35, 0x36), (0x35, 0x38)}
        then Some \<lparr>secid = [0x31, 0x2E] @ code, market = sh\<rparr>
      else if code ! 0 \<in> {0x30, 0x33}
              \<or> (code ! 0, code ! 1) \<in> {(0x31, 0x35), (0x31, 0x36)}
        then Some \<lparr>secid = [0x30, 0x2E] @ code, market = sz\<rparr>
      else None)"

section \<open>Price history: \<open>fetchKline\<close>\<close>

text \<open>The interface \<open>EastMoneyKlineRes\<close>; \<open>rc\<close> and \<open>rt\<close> are never read.\<close>

record kline_data =
  name :: "jsstring option"
  klines :: "jsstring list option"

record EastMoneyKlineRes =
  data :: "kline_data option"

record bar =
  date :: jsstring
  openPrice :: number
  close :: number
  high :: number
  low :: number
  volume :: number

record kline =
  name :: "jsstring option"
  list :: "bar list"

text \<open>\<open>Number(parts[i])\<close>: \<open>parts[i]\<close> is \<open>undefined\<close> past the end. \<open>parts[0]\<close>
  is always there: \<open>split\<close> returns at least one part.\<close>

definition part_number :: "platform \<Rightarrow> jsstring list \<Rightarrow> nat \<Rightarrow> number" where
  "part_number P parts i =
     Number P (if i < length parts then VStr (parts ! i) else VUndefined)"

definition parse_line :: "platform \<Rightarrow> jsstring \<Rightarrow> bar" where
  "parse_line P line =
     (let parts = split_on 0x2C line in
      \<lparr>date = (case parts of [] \<Rightarrow> [] | first # _ \<Rightarrow> first),
       openPrice = part_number P parts 1,
       close = part_number P parts 2,
       high = part_number P parts 3,
       low = part_number P parts 4,
       volume = (let v = part_number P parts 5 in if truthy_num v then v else Fin 0)\<rparr>)"

definition fetchKline :: "platform \<Rightarrow> EastMoneyKlineRes outcome \<Rightarrow> exn + kline" where
  "fetchKline P res =
     (case res of
        Rejected \<Rightarrow> Inl NetworkError
      | NotOk st \<Rightarrow> Inl (KlineRequestFailed st)
      | Unparsable \<Rightarrow> Inl BodyError
      | Parsed json \<Rightarrow>
          (case data json of
             None \<Rightarrow> Inl KlineNoData
           | Some d \<Rightarrow>
               (case klines d of
                  None \<Rightarrow> Inl KlineNoData
                | Some ks \<Rightarrow>
                    if length ks = 0 then Inl KlineNoData
                    else Inr \<lparr>kline.name = kline_data.name d, list = map (parse_line P) ks\<rparr>)))"

section \<open>Dividend sources\<close>

text \<open>The record every source returns; the data-center source adds the date text.\<close>

record dividend =
  year :: number
  cashPerShare :: number

record dividend_ex = dividend +
  exDate :: jsstring

subsection \<open>Data center: \<open>fetchDividend\<close>\<close>

text \<open>
  The parsed body as the source reads it: \<open>json?.data\<close> is missing, or is an array of
  rows, or is an object whose own \<open>data\<close> is an array of rows or is missing.
\<close>

datatype datacenter_json =
    DataMissing
  | DataArray "jsobject list"
  | DataObject "jsobject list option"

definition datacenter_rows :: "datacenter_json \<Rightarrow> jsobject list" where
  "datacenter_rows json =
     (case json of
        DataMissing \<Rightarrow> []
      | DataArray rows \<Rightarrow> rows
      | DataObject None \<Rightarrow> []
      | DataObject (Some rows) \<Rightarrow> rows)"

text \<open>One turn of the loop: \<open>None\<close> is \<open>continue\<close>, \<open>Some\<close> is the record pushed.\<close>

definition datacenter_row :: "platform \<Rightarrow> jsobject \<Rightarrow> dividend_ex option" where
  "datacenter_row P r =
     (let cash = coalesce (get r (ascii ''CASH_PER_SHARE'')) (get r (ascii ''cashPerShare''));
          exDate = coalesce (coalesce (coalesce (get r (ascii ''EX_DIVIDEND_DATE''))
                     (get r (ascii ''exDividendDate''))) (get r (ascii ''REPORT_DATE'')))
                     (VStr [])
      in if \<not> truthy exDate \<or> cash = VUndefined then None
         else let num = Number P cash in
           if isNaN num \<or> num_le num (Fin 0) then None
           else let year = DateFullYear P exDate in
             if isNaN year then None
             else Some \<lparr>year = year, cashPerShare = num,
                        exDate = take 10 (String P exDate)\<rparr>)"

definition fetchDividend :: "platform \<Rightarrow> datacenter_json outcome \<Rightarrow> exn + dividend_ex list" where
  "fetchDividend P res =
     (case res of
        Rejected \<Rightarrow> Inl NetworkError
      | NotOk st \<Rightarrow> Inr []
      | Unparsable \<Rightarrow> Inl BodyError
      | Parsed json \<Rightarrow> Inr (List.map_filter (datacenter_row P) (datacenter_rows json)))"

subsection \<open>Profile text: \<open>parseCashPerShareFromProfile\<close>\<close>

definition no_distribution :: jsstring where
  "no_distribution = [0x4E0D, 0x5206, 0x914D]"

definition no_capitalisation :: jsstring where
  "no_capitalisation = [0x4E0D, 0x8F6C, 0x589E]"

definition distribution_verbs :: "16 word set" where
  "distribution_verbs = {0x6D3E, 0x9001}"

text \<open>
  The pattern \<open>10[verb](\d+\.?\d*)\s*yuan?\<close> tried at the head of a string; the result
  is capture 1. Everything after \<open>\d+\<close> may match the empty string, so the greedy
  choice is the match: all the digits, a dot if one follows, all the digits after it.
\<close>

definition match_here :: "jsstring \<Rightarrow> jsstring option" where
  "match_here s =
     (case s of
        c1 # c0 # v # rest \<Rightarrow>
          if c1 = 0x31 \<and> c0 = 0x30 \<and> v \<in> distribution_verbs
             \<and> takeWhile isDigit rest \<noteq> []
          then Some (takeWhile isDigit rest @
                 (case dropWhile isDigit rest of
                    [] \<Rightarrow> []
                  | d # after \<Rightarrow> if d = 0x2E then d # takeWhile isDigit after else []))
          else None
      | _ \<Rightarrow> None)"

text \<open>\<open>profile.match(re)\<close>: the leftmost position where the pattern matches.\<close>

fun match_profile :: "jsstring \<Rightarrow> jsstring option" where
  "match_profile [] = None"
| "match_profile (c # cs) =
     (case match_here (c # cs) of
        Some m \<Rightarrow> Some m
      | None \<Rightarrow> match_profile cs)"

text \<open>
  \<open>Number(m[1])\<close> where \<open>m[1]\<close> has the shape \<open>\d+\.?\d*\<close>: the value of the decimal
  numeral.
\<close>

definition digitsValue :: "jsstring \<Rightarrow> nat" where
  "digitsValue ds = foldl (\<lambda>a c. 10 * a + (unat c - 48)) 0 ds"

definition decimalValue :: "jsstring \<Rightarrow> real" where
  "decimalValue s =
     (let whole = takeWhile isDigit s;
          fraction = (case dropWhile isDigit s of
                        [] \<Rightarrow> []
                      | d # after \<Rightarrow> if d = 0x2E then takeWhile isDigit after else [])
      in real (digitsValue whole) + real (digitsValue fraction) / 10 ^ length fraction)"

definition parseCashPerShareFromProfile :: "jsstring \<Rightarrow> number option" where
  "parseCashPerShareFromProfile profile =
     (if profile = [] \<or> includes_str no_distribution profile
         \<or> includes_str no_capitalisation profile then None
      else case match_profile profile of
             None \<Rightarrow> None
           | Some m1 \<Rightarrow>
               (let num = Fin (decimalValue m1) in
                if isNaN num \<or> num_le num (Fin 0) then None
                else Some (num_div num (Fin 10))))"

subsection \<open>F10: \<open>fetchDividendF10\<close>\<close>

text \<open>The three row lists the source looks for in the body: \<open>json?.fhyx\<close>,
  \<open>json?.data?.sgbh?.data\<close> and \<open>json?.sgbh\<close>.\<close>

record f10_json =
  fhyx :: "jsobject list option"
  data_sgbh_data :: "jsobject list option"
  sgbh :: "jsobject list option"

text \<open>A loop whose body may throw: the first exception ends it.\<close>

fun collect :: "('a \<Rightarrow> exn + 'b option) \<Rightarrow> 'a list \<Rightarrow> exn + 'b list" where
  "collect f [] = Inr []"
| "collect f (x # xs) =
     (case f x of
        Inl e \<Rightarrow> Inl e
      | Inr r \<Rightarrow>
          (case collect f xs of
             Inl e \<Rightarrow> Inl e
           | Inr rs \<Rightarrow> Inr (case r of None \<Rightarrow> rs | Some v \<Rightarrow> v # rs)))"

text \<open>
  \<open>parseCashPerShareFromProfile(row.IMPL_PLAN_PROFILE ?? "")\<close>. The field is declared a
  string; a truthy value of another type has no \<open>match\<close> method and the call throws.
\<close>

definition profile_cash :: "jsval \<Rightarrow> exn + number option" where
  "profile_cash v =
     (case coalesce v (VStr []) of
        VStr s \<Rightarrow> Inr (parseCashPerShareFromProfile s)
      | other \<Rightarrow> if truthy other then Inl TypeError else Inr None)"

definition year_in_range :: "number \<Rightarrow> bool" where
  "year_in_range y \<longleftrightarrow> num_less (Fin 1990) y \<and> num_less y (Fin 2100)"

definition fhyx_row :: "platform \<Rightarrow> jsobject \<Rightarrow> exn + dividend option" where
  "fhyx_row P row =
     (case profile_cash (get row (ascii ''IMPL_PLAN_PROFILE'')) of
        Inl e \<Rightarrow> Inl e
      | Inr None \<Rightarrow> Inr None
      | Inr (Some cash) \<Rightarrow>
          (let exDate = coalesce (coalesce (get row (ascii ''EX_DIVIDEND_DATE''))
                          (get row (ascii ''NOTICE_DATE''))) (VStr [])
           in if \<not> truthy exDate then Inr None
              else let year = DateFullYear P (VStr (take 10 (String P exDate))) in
                if year_in_range year then Inr (Some \<lparr>year = year, cashPerShare = cash\<rparr>)
                else Inr None))"

definition pay_key :: jsstring where
  "pay_key = [0x6BCF, 0x80A1, 0x6D3E, 0x606F]"

definition notice_date_key :: jsstring where
  "notice_date_key = [0x516C, 0x544A, 0x65E5, 0x671F]"

definition sgbh_row :: "platform \<Rightarrow> jsobject \<Rightarrow> dividend option" where
  "sgbh_row P row =
     (let pay = coalesce (coalesce (get row (ascii ''f03'')) (get row (ascii ''cash'')))
                  (get row pay_key);
          yearStr = coalesce (coalesce (get row (ascii ''f01'')) (get row (ascii ''year'')))
                      (get row notice_date_key)
      in if nullish pay then None
         else let num = Number P pay in
           if isNaN num \<or> num_le num (Fin 0) then None
           else let year =
                  (case yearStr of
                     VNum n \<Rightarrow> n
                   | other \<Rightarrow>
                       if truthy other then
                         (let head = VStr (take 4 (String P other));
                              y = DateFullYear P head
                          in if truthy_num y then y else Number P head)
                       else Fin 0)
             in if year_in_range year then Some \<lparr>year = year, cashPerShare = num\<rparr>
                else None)"

definition fetchDividendF10 :: "platform \<Rightarrow> f10_json outcome \<Rightarrow> exn + dividend list" where
  "fetchDividendF10 P res =
     (case res of
        Rejected \<Rightarrow> Inl NetworkError
      | NotOk st \<Rightarrow> Inr []
      | Unparsable \<Rightarrow> Inl BodyError
      | Parsed json \<Rightarrow>
          (let rows = (case fhyx json of None \<Rightarrow> [] | Some rs \<Rightarrow> rs);
               legacy = (case data_sgbh_data json of
                           Some rs \<Rightarrow> rs
                         | None \<Rightarrow> (case sgbh json of Some rs \<Rightarrow> rs | None \<Rightarrow> []))
           in case collect (fhyx_row P) rows of
                Inl e \<Rightarrow> Inl e
              | Inr result \<Rightarrow>
                  if length rows > 0 \<and> length result > 0 then Inr result
                  else Inr (List.map_filter (sgbh_row P) legacy)))"

subsection \<open>Funds: \<open>isLikelyEtfOrFund\<close>, \<open>fetchEtfDividendFromQuote\<close>,
  \<open>fetchFundDividendFromPage\<close>\<close>

definition isLikelyEtfOrFund :: "jsstring \<Rightarrow> bool" where
  "isLikelyEtfOrFund securityCode =
     (if length securityCode \<noteq> 6 then False
      else let first2 = take 2 securityCode in
        first2 = ascii ''51'' \<or> first2 = ascii ''56'' \<or> first2 = ascii ''58''
        \<or> first2 = ascii ''15'' \<or> first2 = ascii ''16'')"

definition quote_row :: "platform \<Rightarrow> jsobject \<Rightarrow> dividend option" where
  "quote_row P row =
     (let cash = coalesce (coalesce (get row (ascii ''CASH_PER_SHARE''))
                   (get row (ascii ''cashPerShare''))) (get row (ascii ''f03''));
          date = coalesce (coalesce (get row (ascii ''EX_DIVIDEND_DATE''))
                   (get row (ascii ''exDate''))) (get row (ascii ''f01''))
      in if \<not> nullish cash \<and> truthy date then
           (let year = DateFullYear P (VStr (take 10 (String P date)));
                num = Number P cash
            in if year_in_range year \<and> \<not> isNaN num \<and> num_less (Fin 0) num
               then Some \<lparr>year = year, cashPerShare = num\<rparr>
               else None)
         else None)"

text \<open>
  The body of one quote endpoint, after \<open>JSON.parse\<close> (or the JSONP unwrapping): the
  rows when \<open>json?.data\<close> is an array, \<open>None\<close> otherwise. The loop over the endpoints
  runs inside \<open>try\<close>: whatever fails, the next endpoint is tried.
\<close>

fun fetchEtfDividendFromQuote :: "platform \<Rightarrow> jsobject list option outcome list \<Rightarrow> dividend list" where
  "fetchEtfDividendFromQuote P [] = []"
| "fetchEtfDividendFromQuote P (res # urls) =
     (case res of
        Parsed (Some rows) \<Rightarrow>
          (let result = List.map_filter (quote_row P) rows in
           if length result > 0 then result
           else fetchEtfDividendFromQuote P urls)
      | _ \<Rightarrow> fetchEtfDividendFromQuote P urls)"

text \<open>
  The fund page is text searched by three patterns. Each field lists, in the order of
  the matches, the two captures (year, amount) of one pattern over the page.
\<close>

record fund_page =
  rowRe :: "(jsstring \<times> jsstring) list"
  rowRe2 :: "(jsstring \<times> jsstring) list"
  tdRe :: "(jsstring \<times> jsstring) list"

definition fund_match :: "platform \<Rightarrow> jsstring \<times> jsstring \<Rightarrow> dividend option" where
  "fund_match P m =
     (let year = parseInt10 P (fst m); cash = parseFloat P (snd m) in
      if year_in_range year \<and> \<not> isNaN cash \<and> num_less (Fin 0) cash
      then Some \<lparr>year = year, cashPerShare = cash\<rparr>
      else None)"

definition fetchFundDividendFromPage :: "platform \<Rightarrow> fund_page outcome \<Rightarrow> exn + dividend list" where
  "fetchFundDividendFromPage P res =
     (case res of
        Rejected \<Rightarrow> Inl NetworkError
      | NotOk st \<Rightarrow> Inr []
      | Unparsable \<Rightarrow> Inl BodyError
      | Parsed html \<Rightarrow>
          (let result = List.map_filter (fund_match P) (rowRe html);
               result = (if length result = 0
                         then List.map_filter (fund_match P) (rowRe2 html) else result);
               result = (if length result = 0
                         then List.map_filter (fund_match P) (tdRe html) else result)
           in Inr result))"

section \<open>The route: \<open>GET\<close>\<close>

subsection \<open>The upstream provider\<close>

text \<open>What each of the outbound requests of one analysis comes to. The two quote
  endpoints are tried in this order.\<close>

record world =
  klineResponse :: "EastMoneyKlineRes outcome"
  datacenterResponse :: "datacenter_json outcome"
  f10Response :: "f10_json outcome"
  quoteListResponse :: "jsobject list option outcome"
  quoteArchiveResponse :: "jsobject list option outcome"
  fundPageResponse :: "fund_page outcome"

subsection \<open>Dividend aggregation\<close>

text \<open>The chain of sources: the data center, else F10; for a fund code with nothing
  so far, the quote endpoints, else the fund page.\<close>

definition dividendList :: "platform \<Rightarrow> world \<Rightarrow> jsstring \<Rightarrow> exn + dividend list" where
  "dividendList P w securityCode =
     (case fetchDividend P (datacenterResponse w) of
        Inl e \<Rightarrow> Inl e
      | Inr fromDatacenter \<Rightarrow>
          (case (if length fromDatacenter > 0
                 then Inr (map (\<lambda>d. \<lparr>year = year d, cashPerShare = cashPerShare d\<rparr>)
                             fromDatacenter)
                 else fetchDividendF10 P (f10Response w)) of
             Inl e \<Rightarrow> Inl e
           | Inr found \<Rightarrow>
               if length found = 0 \<and> isLikelyEtfOrFund securityCode then
                 (let fromQuote = fetchEtfDividendFromQuote P
                                    [quoteListResponse w, quoteArchiveResponse w]
                  in if length fromQuote > 0 then Inr fromQuote
                     else fetchFundDividendFromPage P (fundPageResponse w))
               else Inr found))"

subsection \<open>Yearly metrics\<close>

text \<open>
  A \<open>Map\<close> keeps its keys in the order of their first insertion; \<open>set\<close> on a key
  already there replaces the value in place. That is \<open>AList.update\<close> on an association
  list. Keys are compared by SameValueZero, under which NaN is equal to itself: the
  equality of the datatype.
\<close>

type_synonym number_map = "(number \<times> number) list"

definition price_step :: "platform \<Rightarrow> number_map \<times> number_map \<Rightarrow> bar \<Rightarrow> number_map \<times> number_map" where
  "price_step P maps row =
     (let firstPriceByYear = fst maps; lastPriceByYear = snd maps;
          y = DateFullYear P (VStr (date row))
      in ((if map_of firstPriceByYear y \<noteq> None then firstPriceByYear
           else AList.update y (close row) firstPriceByYear),
          AList.update y (close row) lastPriceByYear))"

definition priceByYear :: "platform \<Rightarrow> bar list \<Rightarrow> number_map \<times> number_map" where
  "priceByYear P bars = foldl (price_step P) ([], []) bars"

definition dividend_step :: "number_map \<Rightarrow> dividend \<Rightarrow> number_map" where
  "dividend_step byYear d =
     AList.update (year d)
       (num_add (case map_of byYear (year d) of None \<Rightarrow> Fin 0 | Some v \<Rightarrow> v)
                (cashPerShare d))
       byYear"

definition byYear :: "dividend list \<Rightarrow> number_map" where
  "byYear found = foldl dividend_step [] found"

text \<open>\<open>Set.add\<close>, the set kept in insertion order.\<close>

definition set_add :: "number list \<Rightarrow> number \<Rightarrow> number list" where
  "set_add s y = (if y \<in> set s then s else s @ [y])"

definition allYears :: "number_map \<Rightarrow> number_map \<Rightarrow> number list" where
  "allYears firstPriceByYear dividends =
     foldl set_add (foldl set_add [] (map fst firstPriceByYear)) (map fst dividends)"

text \<open>
  \<open>Array.prototype.sort\<close> with a comparator: stable, and a permutation whatever the
  comparator answers. With a consistent comparator the result is the one stable
  insertion computes; with an inconsistent one (a NaN key) ECMAScript leaves the order
  to the engine.
\<close>

fun insort_cmp :: "('a \<Rightarrow> 'a \<Rightarrow> number) \<Rightarrow> 'a \<Rightarrow> 'a list \<Rightarrow> 'a list" where
  "insort_cmp cmp x [] = [x]"
| "insort_cmp cmp x (y # ys) =
     (if num_less (Fin 0) (cmp x y) then y # insort_cmp cmp x ys else x # y # ys)"

definition sort_cmp :: "('a \<Rightarrow> 'a \<Rightarrow> number) \<Rightarrow> 'a list \<Rightarrow> 'a list" where
  "sort_cmp cmp xs = foldr (insort_cmp cmp) xs []"

record YearlyDividend =
  year :: number
  totalDividend :: number
  dividendYieldPercent :: number
  growthRatePercent :: number
  yearStartPrice :: number
  yearEndPrice :: number

text \<open>The body of the loop over the sorted years.\<close>

definition yearlyRecord :: "number_map \<Rightarrow> number_map \<Rightarrow> number_map \<Rightarrow> number \<Rightarrow> YearlyDividend" where
  "yearlyRecord firstPriceByYear lastPriceByYear dividends y =
     (let total = (case map_of dividends y of None \<Rightarrow> Fin 0 | Some v \<Rightarrow> v);
          yearStartPrice = map_of firstPriceByYear y;
          yearEndPrice = map_of lastPriceByYear y;
          dividendYieldPercent =
            (case yearEndPrice of
               None \<Rightarrow> Fin 0
             | Some e \<Rightarrow>
                 if truthy_num e \<and> num_less (Fin 0) e
                 then num_mul (num_div total e) (Fin 100) else Fin 0);
          growthRatePercent =
            (case yearStartPrice of
               None \<Rightarrow> Fin 0
             | Some s \<Rightarrow>
                 if truthy_num s \<and> num_less (Fin 0) s then
                   (case yearEndPrice of
                      None \<Rightarrow> Fin 0
                    | Some e \<Rightarrow>
                        if truthy_num e
                        then num_mul (num_div (num_sub e s) s) (Fin 100) else Fin 0)
                 else Fin 0)
      in \<lparr>year = y,
          totalDividend = round2 total,
          dividendYieldPercent = round2 dividendYieldPercent,
          growthRatePercent = round2 growthRatePercent,
          yearStartPrice = round2 (case yearStartPrice of None \<Rightarrow> Fin 0 | Some s \<Rightarrow> s),
          yearEndPrice = round2 (case yearEndPrice of None \<Rightarrow> Fin 0 | Some e \<Rightarrow> e)\<rparr>)"

definition yearlyRecords :: "platform \<Rightarrow> bar list \<Rightarrow> dividend list \<Rightarrow> YearlyDividend list" where
  "yearlyRecords P bars found =
     (let firstPriceByYear = fst (priceByYear P bars);
          lastPriceByYear = snd (priceByYear P bars);
          dividends = byYear found
      in sort_cmp (\<lambda>a b. num_sub (YearlyDividend.year a) (YearlyDividend.year b))
           (map (yearlyRecord firstPriceByYear lastPriceByYear dividends)
              (sort_cmp (\<lambda>a b. num_sub a b) (allYears firstPriceByYear dividends))))"

subsection \<open>Whole-series growth\<close>

definition years_between :: "platform \<Rightarrow> jsstring \<Rightarrow> jsstring \<Rightarrow> number" where
  "years_between P startDate endDate =
     num_div (num_sub (DateTime P (VStr endDate)) (DateTime P (VStr startDate)))
       (Fin (365.25 * 24 * 60 * 60 * 1000))"

definition cagr :: "number \<Rightarrow> number \<Rightarrow> number \<Rightarrow> number" where
  "cagr years startPrice endPrice =
     (if num_less (Fin 0) years \<and> num_less (Fin 0) startPrice
      then num_sub (Math_pow (num_div endPrice startPrice) (num_div (Fin 1) years)) (Fin 1)
      else Fin 0)"

subsection \<open>The handler\<close>

record StockAnalysisResult =
  symbol :: jsstring
  name :: "jsstring option"
  startDate :: jsstring
  endDate :: jsstring
  startPrice :: number
  endPrice :: number
  years :: number
  cagrPercent :: number
  yearlyDividends :: "YearlyDividend list"
  hasDividends :: bool

text \<open>The bodies the handler answers with: an \<open>error\<close> text (with the symbol, when
  there is one), or the analysis.\<close>

datatype message =
    SymbolMissing
  | CodeNotRecognised
  | NoKlineRows
  | FetchFailed exn

datatype response_body =
    ErrorBody "jsstring option" message
  | ResultBody StockAnalysisResult

record http_response =
  status :: nat
  body :: response_body

definition toDateStr :: "jsstring \<Rightarrow> jsstring" where
  "toDateStr s = take 10 s"

definition analysisResult :: "platform \<Rightarrow> jsstring \<Rightarrow> kline \<Rightarrow> dividend list \<Rightarrow> StockAnalysisResult" where
  "analysisResult P securityCode k found =
     (let bars = list k;
          first = hd bars; last = last bars;
          startPrice = close first; endPrice = close last;
          startDate = date first; endDate = date last;
          years = years_between P startDate endDate;
          cagrPercent = num_mul (cagr years startPrice endPrice) (Fin 100);
          yearlyDividends = yearlyRecords P bars found
      in \<lparr>symbol = securityCode,
          name = kline.name k,
          startDate = toDateStr startDate,
          endDate = toDateStr endDate,
          startPrice = round2 startPrice,
          endPrice = round2 endPrice,
          years = round2 years,
          cagrPercent = round2 cagrPercent,
          yearlyDividends = yearlyDividends,
          hasDividends = (length yearlyDividends > 0)\<rparr>)"

text \<open>The \<open>try\<close> block: \<open>Inl\<close> is an exception on its way to \<open>catch\<close>.\<close>

definition analyse :: "platform \<Rightarrow> world \<Rightarrow> jsstring \<Rightarrow> secid_result \<Rightarrow> exn + http_response" where
  "analyse P w ticker sec =
     (let parts = split_on 0x2E (secid sec);
          securityCode = (if 1 < length parts then parts ! 1 else ticker)
      in case fetchKline P (klineResponse w) of
           Inl e \<Rightarrow> Inl e
         | Inr k \<Rightarrow>
             if length (list k) = 0
             then Inr \<lparr>status = 200, body = ErrorBody (Some ticker) NoKlineRows\<rparr>
             else
               (case dividendList P w securityCode of
                  Inl e \<Rightarrow> Inl e
                | Inr found \<Rightarrow>
                    Inr \<lparr>status = 200,
                         body = ResultBody (analysisResult P securityCode k found)\<rparr>))"

definition GET :: "platform \<Rightarrow> world \<Rightarrow> jsstring option \<Rightarrow> http_response" where
  "GET P w param =
     (let ticker = (case param of None \<Rightarrow> [] | Some s \<Rightarrow> trim s) in
      if ticker = [] then \<lparr>status = 400, body = ErrorBody None SymbolMissing\<rparr>
      else case toSecId ticker of
             None \<Rightarrow> \<lparr>status = 400, body = ErrorBody (Some ticker) CodeNotRecognised\<rparr>
           | Some sec \<Rightarrow>
               (case analyse P w ticker sec of
                  Inl e \<Rightarrow> \<lparr>status = 500, body = ErrorBody (Some ticker) (FetchFailed e)\<rparr>
                | Inr response \<Rightarrow> response))"

section \<open>Notions of the specification\<close>

text \<open>The calendar year of a bar, the bars of a year in their order, and the sum of the
  cash amounts of the events of a year, added up in their order.\<close>

definition bar_year :: "platform \<Rightarrow> bar \<Rightarrow> number" where
  "bar_year P b = DateFullYear P (VStr (date b))"

definition bars_of_year :: "platform \<Rightarrow> bar list \<Rightarrow> number \<Rightarrow> bar list" where
  "bars_of_year P bars y = filter (\<lambda>b. bar_year P b = y) bars"

definition year_total :: "dividend list \<Rightarrow> number \<Rightarrow> number" where
  "year_total found y =
     foldl num_add (Fin 0) (map cashPerShare (filter (\<lambda>d. dividend.year d = y) found))"

section \<open>A host and a provider for the examples\<close>

text \<open>
  The examples run on a host whose library functions are given on the texts the
  examples use: plain decimal numerals, and date stamps \<open>YYYY-MM-DD\<close> (with or without
  a time of day) that fall inside the year they name in every time zone. The time
  values are those of midnight UTC of the three dates listed. No example turns a finite
  number into text, and the host gives no digits for one.
\<close>

definition is_decimal :: "jsstring \<Rightarrow> bool" where
  "is_decimal s \<longleftrightarrow>
     takeWhile isDigit s \<noteq> [] \<and>
     (case dropWhile isDigit s of
        [] \<Rightarrow> True
      | d # after \<Rightarrow> d = 0x2E \<and> list_all isDigit after)"

definition is_date_stamp :: "jsstring \<Rightarrow> bool" where
  "is_date_stamp s \<longleftrightarrow> 10 \<le> length s \<and> list_all isDigit (take 4 s) \<and> s ! 4 = 0x2D"

definition epoch_ms :: "(jsval \<times> number) list" where
  "epoch_ms =
     [(VStr (ascii ''2020-01-02''), Fin 1577923200000),
      (VStr (ascii ''2020-12-31''), Fin 1609372800000),
      (VStr (ascii ''2021-01-04''), Fin 1609718400000)]"

definition host :: platform where
  "host =
     \<lparr>StringToNumber = (\<lambda>s. if s = [] then Fin 0
                             else if is_decimal s then Fin (decimalValue s) else NaN),
      NumberToString = (\<lambda>n. case n of
                               NaN \<Rightarrow> ascii ''NaN''
                             | PosInf \<Rightarrow> ascii ''Infinity''
                             | NegInf \<Rightarrow> ascii ''-Infinity''
                             | Fin x \<Rightarrow> []),
      DateTime = (\<lambda>v. case map_of epoch_ms v of None \<Rightarrow> NaN | Some t \<Rightarrow> t),
      DateFullYear = (\<lambda>v. case v of
                             VStr s \<Rightarrow> if is_date_stamp s
                                       then Fin (real (digitsValue (take 4 s))) else NaN
                           | _ \<Rightarrow> NaN),
      parseInt10 = (\<lambda>s. if s \<noteq> [] \<and> list_all isDigit s
                         then Fin (real (digitsValue s)) else NaN),
      parseFloat = (\<lambda>s. if is_decimal s then Fin (decimalValue s) else NaN)\<rparr>"

text \<open>Price histories: two bars of 2020 closing at 10 and 12, as upstream text and as
  parsed; two bars a year apart that both close at 10; a year that ends at 0. Providers
  around them whose dividend sources all answer 503.\<close>

definition two_bars :: "EastMoneyKlineRes outcome" where
  "two_bars = Parsed \<lparr>data = Some \<lparr>kline_data.name = None,
      klines = Some [ascii ''2020-01-02,9,10,11,8,100'', ascii ''2020-12-31,9,12,13,8,100'']\<rparr>\<rparr>"

definition unreachable :: world where
  "unreachable = \<lparr>klineResponse = two_bars, datacenterResponse = NotOk 503,
     f10Response = NotOk 503, quoteListResponse = NotOk 503, quoteArchiveResponse = NotOk 503,
     fundPageResponse = NotOk 503\<rparr>"










definition bars_2020 :: "bar list" where
  "bars_2020 =
     [\<lparr>date = ascii ''2020-01-02'', openPrice = Fin 9, close = Fin 10, high = Fin 11,
       low = Fin 8, volume = Fin 100\<rparr>,
      \<lparr>date = ascii ''2020-12-31'', openPrice = Fin 9, close = Fin 12, high = Fin 13,
       low = Fin 8, volume = Fin 100\<rparr>]"




section \<open>Properties\<close>

text \<open>The definitions an example unfolds to run the model.\<close>

lemmas string_defs = ascii_def isWhiteSpace_def isDigit_def trim_def
lemmas number_defs = round2_def num_sub_def signed_inf_def truthy_num_def
lemmas value_defs = get_def nullish_def coalesce_def Number_def String_def
lemmas host_defs = host_def is_decimal_def is_date_stamp_def epoch_ms_def decimalValue_def
  digitsValue_def
lemmas route_defs = price_step_def priceByYear_def dividend_step_def
  byYear_def set_add_def allYears_def sort_cmp_def yearlyRecord_def yearlyRecords_def

subsection \<open>Sorting\<close>

lemma mset_insort_cmp: "mset (insort_cmp cmp x ys) = add_mset x (mset ys)"
  by (induction ys) auto

lemma mset_sort_cmp: "mset (sort_cmp cmp xs) = mset xs"
  by (induction xs) (auto simp: sort_cmp_def mset_insort_cmp)

lemma set_sort_cmp: "set (sort_cmp cmp xs) = set xs"
  by (metis mset_sort_cmp set_mset_mset)

subsection \<open>The set of years\<close>

lemma set_foldl_set_add: "set (foldl set_add s ys) = set s \<union> set ys"
  by (induction ys arbitrary: s) (auto simp: set_add_def)

lemma distinct_foldl_set_add: "distinct s \<Longrightarrow> distinct (foldl set_add s ys)"
  by (induction ys arbitrary: s) (auto simp: set_add_def)

lemma set_allYears: "set (allYears f d) = fst ` set f \<union> fst ` set d"
  by (simp add: allYears_def set_foldl_set_add)

lemma distinct_allYears: "distinct (allYears f d)"
  by (simp add: allYears_def distinct_foldl_set_add)

subsection \<open>Prices by year\<close>

lemma price_step_first:
  "map_of (fst (price_step P (f, l) b)) y =
     (case map_of f y of
        Some v \<Rightarrow> Some v
      | None \<Rightarrow> if bar_year P b = y then Some (close b) else None)"
  by (auto simp: price_step_def Let_def bar_year_def update_conv' split: option.splits)

lemma price_step_last:
  "map_of (snd (price_step P (f, l) b)) y =
     (if bar_year P b = y then Some (close b) else map_of l y)"
  by (simp add: price_step_def Let_def bar_year_def update_conv')

lemma first_price_fold:
  "map_of (fst (foldl (price_step P) (f, l) bars)) y =
     (case map_of f y of
        Some v \<Rightarrow> Some v
      | None \<Rightarrow> (case filter (\<lambda>b. bar_year P b = y) bars of
                   [] \<Rightarrow> None
                 | b # _ \<Rightarrow> Some (close b)))"
proof (induction bars arbitrary: f l)
  case Nil
  then show ?case by (simp split: option.splits)
next
  case (Cons b bars)
  obtain f' l' where step: "price_step P (f, l) b = (f', l')"
    by (cases "price_step P (f, l) b")
  have f': "map_of f' y =
     (case map_of f y of
        Some v \<Rightarrow> Some v
      | None \<Rightarrow> if bar_year P b = y then Some (close b) else None)"
    using price_step_first [of P f l b y] by (simp add: step)
  show ?case
    by (simp add: step Cons.IH f' split: option.splits)
qed

lemma last_price_fold:
  "map_of (snd (foldl (price_step P) (f, l) bars)) y =
     (if filter (\<lambda>b. bar_year P b = y) bars = [] then map_of l y
      else Some (close (last (filter (\<lambda>b. bar_year P b = y) bars))))"
proof (induction bars arbitrary: f l)
  case Nil
  then show ?case by simp
next
  case (Cons b bars)
  obtain f' l' where step: "price_step P (f, l) b = (f', l')"
    by (cases "price_step P (f, l) b")
  have l': "map_of l' y = (if bar_year P b = y then Some (close b) else map_of l y)"
    using price_step_last [of P f l b y] by (simp add: step)
  show ?case
    by (simp add: step Cons.IH l')
qed

lemma first_price:
  "map_of (fst (priceByYear P bars)) y =
     (case filter (\<lambda>b. bar_year P b = y) bars of [] \<Rightarrow> None | b # _ \<Rightarrow> Some (close b))"
  by (simp add: priceByYear_def first_price_fold)

lemma last_price:
  "map_of (snd (priceByYear P bars)) y =
     (if filter (\<lambda>b. bar_year P b = y) bars = [] then None
      else Some (close (last (filter (\<lambda>b. bar_year P b = y) bars))))"
  by (simp add: priceByYear_def last_price_fold)

lemma first_price_keys: "fst ` set (fst (priceByYear P bars)) = bar_year P ` set bars"
proof -
  have "dom (map_of (fst (priceByYear P bars))) = bar_year P ` set bars"
    by (auto simp: dom_def first_price filter_empty_conv split: list.splits)
  then show ?thesis by (simp add: dom_map_of_conv_image_fst)
qed

subsection \<open>Dividends by year\<close>

lemma map_of_dividend_step:
  "map_of (dividend_step m d) y =
     (if dividend.year d = y
      then Some (num_add (case map_of m y of None \<Rightarrow> Fin 0 | Some v \<Rightarrow> v) (cashPerShare d))
      else map_of m y)"
  by (simp add: dividend_step_def update_conv')

lemma byYear_fold:
  "map_of (foldl dividend_step m found) y =
     (if filter (\<lambda>d. dividend.year d = y) found = [] then map_of m y
      else Some (foldl num_add (case map_of m y of None \<Rightarrow> Fin 0 | Some v \<Rightarrow> v)
                   (map cashPerShare (filter (\<lambda>d. dividend.year d = y) found))))"
proof (induction found arbitrary: m)
  case Nil
  then show ?case by simp
next
  case (Cons d found)
  show ?case
    by (simp add: Cons.IH map_of_dividend_step)
qed

lemma byYear_lookup:
  "map_of (byYear found) y =
     (if filter (\<lambda>d. dividend.year d = y) found = [] then None else Some (year_total found y))"
  by (simp add: byYear_def byYear_fold year_total_def)

lemma byYear_total: "(case map_of (byYear found) y of None \<Rightarrow> Fin 0 | Some v \<Rightarrow> v) = year_total found y"
  by (simp add: byYear_lookup year_total_def)

lemma byYear_keys: "fst ` set (byYear found) = dividend.year ` set found"
proof -
  have "dom (map_of (byYear found)) = dividend.year ` set found"
    by (auto simp: dom_def byYear_lookup filter_empty_conv)
  then show ?thesis by (simp add: dom_map_of_conv_image_fst)
qed

subsection \<open>Records\<close>

lemma year_yearlyRecord [simp]: "YearlyDividend.year (yearlyRecord f l d y) = y"
  by (simp add: yearlyRecord_def Let_def)

lemma mset_record_years:
  "mset (map YearlyDividend.year (yearlyRecords P bars found)) =
     mset (allYears (fst (priceByYear P bars)) (byYear found))"
proof -
  let ?f = "fst (priceByYear P bars)" and ?l = "snd (priceByYear P bars)"
  let ?ys = "sort_cmp (\<lambda>a b. num_sub a b) (allYears ?f (byYear found))"
  have "mset (map YearlyDividend.year (yearlyRecords P bars found)) =
          image_mset YearlyDividend.year (mset (map (yearlyRecord ?f ?l (byYear found)) ?ys))"
    by (simp add: yearlyRecords_def Let_def mset_sort_cmp)
  also have "\<dots> = mset (map (\<lambda>y. YearlyDividend.year (yearlyRecord ?f ?l (byYear found) y)) ?ys)"
    by (simp add: multiset.map_comp o_def)
  also have "\<dots> = mset ?ys" by simp
  finally show ?thesis by (simp add: mset_sort_cmp)
qed

lemma set_record_years:
  "YearlyDividend.year ` set (yearlyRecords P bars found) =
     bar_year P ` set bars \<union> dividend.year ` set found"
proof -
  have "set (map YearlyDividend.year (yearlyRecords P bars found)) =
          set (allYears (fst (priceByYear P bars)) (byYear found))"
    by (metis mset_record_years set_mset_mset)
  then show ?thesis
    by (simp add: set_allYears first_price_keys byYear_keys)
qed

lemma distinct_record_years:
  "distinct (map YearlyDividend.year (yearlyRecords P bars found))"
  by (metis mset_record_years distinct_allYears mset_eq_imp_distinct_iff)

lemma length_filter_eq_count: "length (filter (\<lambda>z. z = y) xs) = count (mset xs) y"
  by (induction xs) auto

lemma one_record_per_year:
  assumes "y \<in> bar_year P ` set bars \<union> dividend.year ` set found"
  shows "length (filter (\<lambda>r. YearlyDividend.year r = y) (yearlyRecords P bars found)) = 1"
proof -
  let ?ys = "map YearlyDividend.year (yearlyRecords P bars found)"
  have "length (filter (\<lambda>r. YearlyDividend.year r = y) (yearlyRecords P bars found)) =
          length (filter (\<lambda>z. z = y) ?ys)"
    by (simp add: filter_map o_def)
  also have "\<dots> = count (mset ?ys) y"
    by (rule length_filter_eq_count)
  also have "\<dots> = 1"
  proof -
    have "y \<in> set ?ys" using assms set_record_years [of P bars found] by simp
    then show ?thesis using distinct_record_years [of P bars found]
      by (simp add: distinct_count_atmost_1)
  qed
  finally show ?thesis .
qed

lemma record_is_yearlyRecord:
  assumes "r \<in> set (yearlyRecords P bars found)"
  shows "r = yearlyRecord (fst (priceByYear P bars)) (snd (priceByYear P bars)) (byYear found)
               (YearlyDividend.year r)"
proof -
  from assms obtain y where "r = yearlyRecord (fst (priceByYear P bars)) (snd (priceByYear P bars)) (byYear found) y"
    by (auto simp: yearlyRecords_def Let_def set_sort_cmp)
  then show ?thesis by simp
qed

lemma records_nonempty: "bars \<noteq> [] \<Longrightarrow> yearlyRecords P bars found \<noteq> []"
proof -
  assume "bars \<noteq> []"
  then have "bar_year P ` set bars \<noteq> {}" by simp
  then have "YearlyDividend.year ` set (yearlyRecords P bars found) \<noteq> {}"
    by (simp add: set_record_years)
  then show ?thesis by auto
qed

text \<open>The fields of a record, in terms of the bars and events of its year.\<close>

lemma record_totalDividend:
  "totalDividend (yearlyRecord (fst (priceByYear P bars)) l (byYear found) y) =
     round2 (year_total found y)"
  by (simp add: yearlyRecord_def Let_def byYear_total)

lemma num_less_truthy: "num_less (Fin 0) n \<Longrightarrow> truthy_num n"
  by (cases n) (auto simp: truthy_num_def)


lemma record_yield:
  "dividendYieldPercent (yearlyRecord f (snd (priceByYear P bars)) (byYear found) y) =
     round2 (if bars_of_year P bars y = [] then Fin 0
             else if num_less (Fin 0) (close (last (bars_of_year P bars y)))
               then num_mul (num_div (year_total found y) (close (last (bars_of_year P bars y))))
                      (Fin 100)
               else Fin 0)"
  by (auto simp: yearlyRecord_def Let_def last_price bars_of_year_def byYear_total
      num_less_truthy split: list.splits)

subsection \<open>The ticker resolver\<close>

lemma six_elements:
  assumes "length xs = 6"
  obtains a b c d e f where "xs = [a, b, c, d, e, f]"
proof -
  from assms have "length xs = Suc (Suc (Suc (Suc (Suc (Suc 0)))))" by simp
  then obtain a b c d e f where "xs = [a, b, c, d, e, f]"
    by (auto simp: length_Suc_conv)
  then show ?thesis by (rule that)
qed

lemma toSecId_eq_spec: "toSecId input = resolve_spec input"
proof (cases "length (filter (\<lambda>c. \<not> isWhiteSpace c) input) = 6")
  case True
  then obtain a b c d e f where raw: "filter (\<lambda>c. \<not> isWhiteSpace c) input = [a, b, c, d, e, f]"
    by (rule six_elements)
  show ?thesis
    by (simp add: toSecId_def resolve_spec_def raw ascii_def Let_def) (auto simp: isDigit_def)
next
  case False
  then show ?thesis
    by (simp add: toSecId_def resolve_spec_def Let_def)
qed

text \<open>
  C1. For every input string the resolver strips the whitespace and succeeds only when
  exactly six ASCII digits remain; the first matching rule decides: a first digit 6, 5
  or 9, or the first two digits 51, 56 or 58, give the Shanghai market and the
  identifier "1." followed by the code; a first digit 0 or 3, or the first two digits 15
  or 16, give the Shenzhen market and "0." followed by the code; anything else fails.
  "600519" resolves to "1.600519", "000001" to "0.000001", "512345" to Shanghai, and
  "abc123" fails.
\<close>

theorem toSecId_resolves:
  "(\<forall>input. toSecId input = resolve_spec input)
   \<and> toSecId (ascii ''600519'') = Some \<lparr>secid = ascii ''1.600519'', market = sh\<rparr>
   \<and> toSecId (ascii ''000001'') = Some \<lparr>secid = ascii ''0.000001'', market = sz\<rparr>
   \<and> (\<exists>r. toSecId (ascii ''512345'') = Some r \<and> market r = sh)
   \<and> toSecId (ascii ''abc123'') = None"
proof -
  have "toSecId (ascii ''600519'') = Some \<lparr>secid = ascii ''1.600519'', market = sh\<rparr>"
    by (simp add: toSecId_def string_defs)
  moreover have "toSecId (ascii ''000001'') = Some \<lparr>secid = ascii ''0.000001'', market = sz\<rparr>"
    by (simp add: toSecId_def string_defs)
  moreover have "\<exists>r. toSecId (ascii ''512345'') = Some r \<and> market r = sh"
    by (simp add: toSecId_def string_defs)
  moreover have "toSecId (ascii ''abc123'') = None"
    by (simp add: toSecId_def string_defs)
  ultimately show ?thesis using toSecId_eq_spec by simp
qed

theorem toSecId_resolves_witness:
  "resolve_spec (ascii '' 1624 11 '') = Some \<lparr>secid = ascii ''0.162411'', market = sz\<rparr>
   \<and> resolve_spec (ascii ''588000'') = Some \<lparr>secid = ascii ''1.588000'', market = sh\<rparr>
   \<and> resolve_spec (ascii ''12345'') = None
   \<and> resolve_spec (ascii ''812345'') = None"
proof -
  have eq: "\<And>input. resolve_spec input = toSecId input"
    using toSecId_resolves by simp
  show ?thesis
    unfolding eq by (simp add: toSecId_def string_defs)
qed

subsection \<open>The handler\<close>

lemma fetchKline_nonempty: "fetchKline P res = Inr k \<Longrightarrow> list k \<noteq> []"
  by (auto simp: fetchKline_def split: outcome.splits option.splits if_splits)

lemma analyse_ok_is_result:
  "analyse P w ticker sec = Inr response \<Longrightarrow>
     status response = 200 \<and> (\<exists>r. body response = ResultBody r)"
  by (auto simp: analyse_def Let_def dest: fetchKline_nonempty split: sum.splits if_splits)

lemma GET_200_is_result:
  "status (GET P w param) = 200 \<Longrightarrow> \<exists>r. body (GET P w param) = ResultBody r"
  by (auto simp: GET_def Let_def dest: analyse_ok_is_result split: option.splits sum.splits if_splits)

lemma split_on_no_sep: "sep \<notin> set s \<Longrightarrow> split_on sep s = [s]"
  by (induction s) auto

lemma toSecId_SomeD:
  assumes "toSecId t = Some sec"
  shows "\<exists>c. c \<noteq> 0x2E \<and> secid sec = c # 0x2E # filter (\<lambda>c. \<not> isWhiteSpace c) t"
    and "list_all isDigit (filter (\<lambda>c. \<not> isWhiteSpace c) t)"
    and "t \<noteq> []"
  using assms by (auto simp: toSecId_def Let_def ascii_def split: if_splits)

text \<open>The code the handler cuts out of the identifier: what follows the dot.\<close>

lemma secid_parts:
  assumes "toSecId t = Some sec"
  shows "\<exists>c. split_on 0x2E (secid sec) = [[c], drop 2 (secid sec)]"
proof -
  let ?code = "filter (\<lambda>c. \<not> isWhiteSpace c) t"
  from toSecId_SomeD(1) [OF assms] obtain c where c: "c \<noteq> 0x2E" "secid sec = c # 0x2E # ?code"
    by blast
  have "0x2E \<notin> set ?code"
    using toSecId_SomeD(2) [OF assms] by (auto simp: list_all_iff isDigit_def)
  then have "split_on 0x2E ?code = [?code]" by (rule split_on_no_sep)
  then show ?thesis using c by simp
qed

lemma analyse_resolved:
  assumes "toSecId t = Some sec"
  shows "analyse P w t sec =
     (case fetchKline P (klineResponse w) of
        Inl e \<Rightarrow> Inl e
      | Inr k \<Rightarrow>
          (case dividendList P w (drop 2 (secid sec)) of
             Inl e \<Rightarrow> Inl e
           | Inr found \<Rightarrow>
               Inr \<lparr>status = 200,
                    body = ResultBody (analysisResult P (drop 2 (secid sec)) k found)\<rparr>))"
proof -
  from secid_parts [OF assms] obtain c
    where parts: "split_on 0x2E (secid sec) = [[c], drop 2 (secid sec)]" by blast
  show ?thesis
    by (auto simp: analyse_def parts dest: fetchKline_nonempty split: sum.splits)
qed

lemma GET_resolved:
  assumes "toSecId (trim s) = Some sec"
  shows "GET P w (Some s) =
     (case fetchKline P (klineResponse w) of
        Inl e \<Rightarrow> \<lparr>status = 500, body = ErrorBody (Some (trim s)) (FetchFailed e)\<rparr>
      | Inr k \<Rightarrow>
          (case dividendList P w (drop 2 (secid sec)) of
             Inl e \<Rightarrow> \<lparr>status = 500, body = ErrorBody (Some (trim s)) (FetchFailed e)\<rparr>
           | Inr found \<Rightarrow>
               \<lparr>status = 200,
                body = ResultBody (analysisResult P (drop 2 (secid sec)) k found)\<rparr>))"
  using toSecId_SomeD(3) [OF assms]
  by (simp add: GET_def Let_def assms analyse_resolved [OF assms] split: sum.splits)

lemma GET_success:
  assumes "GET P w param = \<lparr>status = 200, body = ResultBody r\<rparr>"
  obtains s sec k found where "param = Some s" "toSecId (trim s) = Some sec"
    "fetchKline P (klineResponse w) = Inr k"
    "dividendList P w (drop 2 (secid sec)) = Inr found"
    "r = analysisResult P (drop 2 (secid sec)) k found"
proof -
  from assms obtain s sec where s: "param = Some s" "toSecId (trim s) = Some sec"
    by (auto simp: GET_def Let_def split: option.splits if_splits)
  from assms show ?thesis
    unfolding s GET_resolved [OF s(2)]
    by (auto split: sum.splits intro: that [OF s])
qed

lemma resolve_600519:
  "toSecId (trim (ascii ''600519'')) = Some \<lparr>secid = ascii ''1.600519'', market = sh\<rparr>"
  by (simp add: toSecId_def string_defs)

lemma resolve_510300:
  "toSecId (trim (ascii ''510300'')) = Some \<lparr>secid = ascii ''1.510300'', market = sh\<rparr>"
  by (simp add: toSecId_def string_defs)

text \<open>
  C2. The claim: when the price request succeeds and the body holds no bar, the handler
  answers with status 200 and a body that carries an error. The handler has a branch
  that does so, for an empty list returned by \<open>fetchKline\<close>; but \<open>fetchKline\<close>
  throws when there is no bar, the exception reaches \<open>catch\<close>, and the answer has
  status 500. No request at all is answered with status 200 and an error body.
\<close>

theorem GET_empty_kline_500:
  "GET P (w\<lparr>klineResponse := Parsed \<lparr>data = Some \<lparr>kline_data.name = n, klines = Some []\<rparr>\<rparr>\<rparr>)
       (Some (ascii ''600519'')) =
     \<lparr>status = 500, body = ErrorBody (Some (ascii ''600519'')) (FetchFailed KlineNoData)\<rparr>
   \<and> (\<nexists>P w param t m. GET P w param = \<lparr>status = 200, body = ErrorBody t m\<rparr>)"
proof -
  have "GET P (w\<lparr>klineResponse := Parsed \<lparr>data = Some \<lparr>kline_data.name = n, klines = Some []\<rparr>\<rparr>\<rparr>)
       (Some (ascii ''600519'')) =
     \<lparr>status = 500, body = ErrorBody (Some (ascii ''600519'')) (FetchFailed KlineNoData)\<rparr>"
    by (simp add: GET_resolved [OF resolve_600519] fetchKline_def) (simp add: string_defs)
  moreover have "\<nexists>P w param t m. GET P w param = \<lparr>status = 200, body = ErrorBody t m\<rparr>"
  proof
    assume "\<exists>P w param t m. GET P w param = \<lparr>status = 200, body = ErrorBody t m\<rparr>"
    then obtain P w param t m where g: "GET P w param = \<lparr>status = 200, body = ErrorBody t m\<rparr>"
      by blast
    then have "status (GET P w param) = 200" by simp
    then obtain r where "body (GET P w param) = ResultBody r"
      using GET_200_is_result by blast
    with g show False by simp
  qed
  ultimately show ?thesis by simp
qed

text \<open>
  C3. The claim: dividend aggregation never raises; a network or parse failure inside a
  source counts as no result from that source. Only the quote source runs inside
  \<open>try\<close>: its failures are passed over. In the data-center source, and likewise in
  F10 and in the fund page, a request that fails, or a body that does not parse,
  throws; aggregation stops there and the handler answers 500, although the price
  history was fetched.
\<close>

theorem dividend_failure_500:
  "dividendList P (w\<lparr>datacenterResponse := Rejected\<rparr>) code = Inl NetworkError
   \<and> dividendList P (w\<lparr>datacenterResponse := Unparsable\<rparr>) code = Inl BodyError
   \<and> dividendList P (w\<lparr>datacenterResponse := NotOk 503, f10Response := Rejected\<rparr>) code
       = Inl NetworkError
   \<and> dividendList P (w\<lparr>datacenterResponse := NotOk 503, f10Response := NotOk 503,
          quoteListResponse := Rejected, quoteArchiveResponse := Unparsable,
          fundPageResponse := Rejected\<rparr>) (ascii ''510300'') = Inl NetworkError
   \<and> GET P (w\<lparr>klineResponse := Parsed \<lparr>data = Some \<lparr>kline_data.name = n,
                                                      klines = Some (line # lines)\<rparr>\<rparr>,
              datacenterResponse := Rejected\<rparr>) (Some (ascii ''600519'')) =
       \<lparr>status = 500, body = ErrorBody (Some (ascii ''600519'')) (FetchFailed NetworkError)\<rparr>"
proof -
  have "GET P (w\<lparr>klineResponse := Parsed \<lparr>data = Some \<lparr>kline_data.name = n,
                                                      klines = Some (line # lines)\<rparr>\<rparr>,
              datacenterResponse := Rejected\<rparr>) (Some (ascii ''600519'')) =
       \<lparr>status = 500, body = ErrorBody (Some (ascii ''600519'')) (FetchFailed NetworkError)\<rparr>"
    by (simp add: GET_resolved [OF resolve_600519] fetchKline_def dividendList_def
          fetchDividend_def) (simp add: string_defs)
  moreover have "isLikelyEtfOrFund (ascii ''510300'')"
    by (simp add: isLikelyEtfOrFund_def ascii_def)
  ultimately show ?thesis
    by (simp add: dividendList_def fetchDividend_def fetchDividendF10_def
        fetchFundDividendFromPage_def)
qed

subsection \<open>No dividends\<close>

lemma round2_zero [simp]: "round2 (Fin 0) = Fin 0"
  by (simp add: round2_def)

lemma year_total_Nil [simp]: "year_total [] y = Fin 0"
  by (simp add: year_total_def)

lemma zero_yield: "num_less (Fin 0) e \<Longrightarrow> num_mul (num_div (Fin 0) e) (Fin 100) = Fin 0"
  by (cases e) auto

lemma no_events_records:
  assumes "rec \<in> set (yearlyRecords P bars [])"
  shows "totalDividend rec = Fin 0 \<and> dividendYieldPercent rec = Fin 0"
proof -
  let ?y = "YearlyDividend.year rec"
  have rec: "rec = yearlyRecord (fst (priceByYear P bars)) (snd (priceByYear P bars)) (byYear []) ?y"
    using assms by (rule record_is_yearlyRecord)
  have "totalDividend rec = Fin 0"
    by (subst rec) (simp add: record_totalDividend)
  moreover have "dividendYieldPercent rec = Fin 0"
    by (subst rec) (simp add: record_yield zero_yield)
  ultimately show ?thesis by simp
qed

lemma dividendList_empty:
  assumes "fetchDividend P (datacenterResponse w) = Inr []"
    and "fetchDividendF10 P (f10Response w) = Inr []"
    and "fetchEtfDividendFromQuote P [quoteListResponse w, quoteArchiveResponse w] = []"
    and "fetchFundDividendFromPage P (fundPageResponse w) = Inr []"
  shows "dividendList P w code = Inr []"
  using assms by (simp add: dividendList_def)

text \<open>
  C4, as amended. If all four dividend sources yield no events, the aggregated dividend
  sequence is empty, the analysis succeeds, and every yearly record has a total dividend
  of 0 and a dividend yield of 0. \<open>hasDividends\<close> is true all the same: it says that
  there are yearly records, and every year of the price history has one.
\<close>

theorem no_events_result:
  assumes "toSecId (trim s) = Some sec"
    and "fetchKline P (klineResponse w) = Inr k"
    and "fetchDividend P (datacenterResponse w) = Inr []"
    and "fetchDividendF10 P (f10Response w) = Inr []"
    and "fetchEtfDividendFromQuote P [quoteListResponse w, quoteArchiveResponse w] = []"
    and "fetchFundDividendFromPage P (fundPageResponse w) = Inr []"
  shows "dividendList P w (drop 2 (secid sec)) = Inr []
    \<and> (\<exists>r. GET P w (Some s) = \<lparr>status = 200, body = ResultBody r\<rparr>
          \<and> hasDividends r
          \<and> yearlyDividends r \<noteq> []
          \<and> (\<forall>rec \<in> set (yearlyDividends r).
                totalDividend rec = Fin 0 \<and> dividendYieldPercent rec = Fin 0))"
proof -
  let ?code = "drop 2 (secid sec)"
  let ?r = "analysisResult P ?code k []"
  have empty: "dividendList P w ?code = Inr []"
    using assms(3-6) by (rule dividendList_empty)
  have get: "GET P w (Some s) = \<lparr>status = 200, body = ResultBody ?r\<rparr>"
    by (simp add: GET_resolved [OF assms(1)] assms(2) empty)
  have records: "yearlyDividends ?r = yearlyRecords P (list k) []"
    by (simp add: analysisResult_def Let_def)
  have nonempty: "yearlyDividends ?r \<noteq> []"
    using fetchKline_nonempty [OF assms(2)] by (simp add: records records_nonempty)
  have "hasDividends ?r"
    using nonempty by (simp add: analysisResult_def Let_def)
  moreover have "\<forall>rec \<in> set (yearlyDividends ?r).
                totalDividend rec = Fin 0 \<and> dividendYieldPercent rec = Fin 0"
    unfolding records using no_events_records by blast
  ultimately show ?thesis using empty get nonempty by blast
qed

lemma host_two_bars:
  "fetchKline host two_bars =
     Inr \<lparr>kline.name = None,
          list = [\<lparr>date = ascii ''2020-01-02'', openPrice = Fin 9, close = Fin 10, high = Fin 11,
                   low = Fin 8, volume = Fin 100\<rparr>,
                  \<lparr>date = ascii ''2020-12-31'', openPrice = Fin 9, close = Fin 12, high = Fin 13,
                   low = Fin 8, volume = Fin 100\<rparr>]\<rparr>"
  by (simp add: fetchKline_def two_bars_def parse_line_def part_number_def host_defs
      string_defs number_defs value_defs)

text \<open>
  C4 as stated (no events, hence \<open>hasDividends = false\<close>) fails: with the four sources
  answering 503, the analysis of two bars of 2020 has \<open>hasDividends = true\<close>.
\<close>

theorem no_events_hasDividends_counterexample:
  "fetchDividend host (datacenterResponse unreachable) = Inr []
   \<and> fetchDividendF10 host (f10Response unreachable) = Inr []
   \<and> fetchEtfDividendFromQuote host
       [quoteListResponse unreachable, quoteArchiveResponse unreachable] = []
   \<and> fetchFundDividendFromPage host (fundPageResponse unreachable) = Inr []
   \<and> dividendList host unreachable (ascii ''510300'') = Inr []
   \<and> (\<exists>r. GET host unreachable (Some (ascii ''510300'')) = \<lparr>status = 200, body = ResultBody r\<rparr>
         \<and> hasDividends r = True)"
proof -
  have sources: "fetchDividend host (datacenterResponse unreachable) = Inr []"
    "fetchDividendF10 host (f10Response unreachable) = Inr []"
    "fetchEtfDividendFromQuote host
       [quoteListResponse unreachable, quoteArchiveResponse unreachable] = []"
    "fetchFundDividendFromPage host (fundPageResponse unreachable) = Inr []"
    by (simp_all add: unreachable_def fetchDividend_def fetchDividendF10_def
        fetchFundDividendFromPage_def)
  have empty: "dividendList host unreachable (ascii ''510300'') = Inr []"
    using sources by (rule dividendList_empty)
  have code: "drop 2 (ascii ''1.510300'') = ascii ''510300''"
    by (simp add: ascii_def)
  have kline: "fetchKline host (klineResponse unreachable) = Inr \<lparr>kline.name = None,
          list = [\<lparr>date = ascii ''2020-01-02'', openPrice = Fin 9, close = Fin 10, high = Fin 11,
                   low = Fin 8, volume = Fin 100\<rparr>,
                  \<lparr>date = ascii ''2020-12-31'', openPrice = Fin 9, close = Fin 12, high = Fin 13,
                   low = Fin 8, volume = Fin 100\<rparr>]\<rparr>"
    using host_two_bars by (simp add: unreachable_def)
  have "\<exists>r. GET host unreachable (Some (ascii ''510300'')) = \<lparr>status = 200, body = ResultBody r\<rparr>
         \<and> hasDividends r = True"
    using fetchKline_nonempty [OF kline]
    by (simp add: GET_resolved [OF resolve_510300] code empty kline analysisResult_def Let_def
        records_nonempty)
  then show ?thesis using sources empty by simp
qed

text \<open>The amended C4 at that provider, for the fund code 510300.\<close>

theorem no_events_result_witness:
  "toSecId (trim (ascii '' 510300 '')) = Some \<lparr>secid = ascii ''1.510300'', market = sh\<rparr>
   \<and> dividendList host unreachable (ascii ''510300'') = Inr []
   \<and> (\<exists>r. GET host unreachable (Some (ascii '' 510300 '')) = \<lparr>status = 200, body = ResultBody r\<rparr>
          \<and> hasDividends r
          \<and> yearlyDividends r \<noteq> []
          \<and> list_all (\<lambda>rec. totalDividend rec = Fin 0 \<and> dividendYieldPercent rec = Fin 0)
                (yearlyDividends r))"
proof -
  have sec: "toSecId (trim (ascii '' 510300 '')) = Some \<lparr>secid = ascii ''1.510300'', market = sh\<rparr>"
    by (simp add: toSecId_def string_defs)
  have sources: "fetchDividend host (datacenterResponse unreachable) = Inr []"
    "fetchDividendF10 host (f10Response unreachable) = Inr []"
    "fetchEtfDividendFromQuote host
       [quoteListResponse unreachable, quoteArchiveResponse unreachable] = []"
    "fetchFundDividendFromPage host (fundPageResponse unreachable) = Inr []"
    by (simp_all add: unreachable_def fetchDividend_def fetchDividendF10_def
        fetchFundDividendFromPage_def)
  have kline: "fetchKline host (klineResponse unreachable) = Inr \<lparr>kline.name = None,
          list = [\<lparr>date = ascii ''2020-01-02'', openPrice = Fin 9, close = Fin 10, high = Fin 11,
                   low = Fin 8, volume = Fin 100\<rparr>,
                  \<lparr>date = ascii ''2020-12-31'', openPrice = Fin 9, close = Fin 12, high = Fin 13,
                   low = Fin 8, volume = Fin 100\<rparr>]\<rparr>"
    using host_two_bars by (simp add: unreachable_def)
  have code: "drop 2 (ascii ''1.510300'') = ascii ''510300''"
    by (simp add: ascii_def)
  show ?thesis
    using no_events_result [OF sec kline sources] sec
    by (simp add: code list_all_iff)
qed

subsection \<open>Dividend sources\<close>























subsection \<open>The profile text\<close>








subsection \<open>Whole-series growth\<close>


lemma GET_successD:
  assumes "GET P w param = \<lparr>status = 200, body = ResultBody r\<rparr>"
  shows "\<exists>s sec k found. param = Some s \<and> toSecId (trim s) = Some sec
    \<and> fetchKline P (klineResponse w) = Inr k
    \<and> dividendList P w (drop 2 (secid sec)) = Inr found
    \<and> r = analysisResult P (drop 2 (secid sec)) k found"
  by (rule GET_success [OF assms]) blast



subsection \<open>Yearly records\<close>







text \<open>
  C10. Every successful analysis rests on a price history of at least one bar, and its
  result holds exactly one yearly record for each calendar year that appears in the
  bars; this is so when the aggregated dividend sequence is empty too: then the years of
  the records are the years of the bars and each record has the total dividend 0. So
  the yearly records are never empty and \<open>hasDividends\<close> is true, whether or not a
  dividend was ever paid.
\<close>

theorem one_record_per_price_year:
  assumes "GET P w param = \<lparr>status = 200, body = ResultBody r\<rparr>"
  shows "\<exists>k found. fetchKline P (klineResponse w) = Inr k
     \<and> (\<exists>code. dividendList P w code = Inr found)
     \<and> list k \<noteq> []
     \<and> (\<forall>b \<in> set (list k).
          length (filter (\<lambda>rec. YearlyDividend.year rec = bar_year P b) (yearlyDividends r)) = 1)
     \<and> (found = [] \<longrightarrow>
          YearlyDividend.year ` set (yearlyDividends r) = bar_year P ` set (list k)
          \<and> (\<forall>rec \<in> set (yearlyDividends r). totalDividend rec = Fin 0))
     \<and> yearlyDividends r \<noteq> []
     \<and> hasDividends r"
proof -
  from GET_successD [OF assms] obtain sec :: secid_result and k found
    where k: "fetchKline P (klineResponse w) = Inr k"
      and found: "dividendList P w (drop 2 (secid sec)) = Inr found"
      and r: "r = analysisResult P (drop 2 (secid sec)) k found"
    by blast
  have records: "yearlyDividends r = yearlyRecords P (list k) found"
    by (simp add: r analysisResult_def Let_def)
  have bars: "list k \<noteq> []"
    using k by (rule fetchKline_nonempty)
  have nonempty: "yearlyDividends r \<noteq> []"
    using bars by (simp add: records records_nonempty)
  have has: "hasDividends r"
    using nonempty by (simp add: r analysisResult_def Let_def)
  have one: "\<forall>b \<in> set (list k).
          length (filter (\<lambda>rec. YearlyDividend.year rec = bar_year P b) (yearlyDividends r)) = 1"
  proof
    fix b
    assume "b \<in> set (list k)"
    then have "bar_year P b \<in> bar_year P ` set (list k) \<union> dividend.year ` set found"
      by simp
    then show "length (filter (\<lambda>rec. YearlyDividend.year rec = bar_year P b)
                 (yearlyDividends r)) = 1"
      unfolding records by (rule one_record_per_year)
  qed
  have none: "found = [] \<longrightarrow>
          YearlyDividend.year ` set (yearlyDividends r) = bar_year P ` set (list k)
          \<and> (\<forall>rec \<in> set (yearlyDividends r). totalDividend rec = Fin 0)"
    unfolding records using no_events_records by (auto simp: set_record_years)
  show ?thesis
    using k found bars one none nonempty has by blast
qed

text \<open>C10 at the provider whose dividend sources all answer 503: two bars of 2020,
  one record, for 2020, with the total 0.\<close>

theorem one_record_per_price_year_witness:
  "\<exists>r. GET host unreachable (Some (ascii ''510300'')) = \<lparr>status = 200, body = ResultBody r\<rparr>
      \<and> map YearlyDividend.year (yearlyDividends r) = [Fin 2020]
      \<and> map totalDividend (yearlyDividends r) = [Fin 0]
      \<and> hasDividends r"
proof -
  let ?k = "\<lparr>kline.name = None, list = bars_2020\<rparr>"
  let ?r = "analysisResult host (drop 2 (ascii ''1.510300'')) ?k []"
  have kline: "fetchKline host (klineResponse unreachable) = Inr ?k"
    using host_two_bars by (simp add: unreachable_def bars_2020_def)
  have none: "dividendList host unreachable (drop 2 (ascii ''1.510300'')) = Inr []"
    by (rule dividendList_empty)
       (simp_all add: unreachable_def fetchDividend_def fetchDividendF10_def
          fetchFundDividendFromPage_def)
  have get: "GET host unreachable (Some (ascii ''510300'')) = \<lparr>status = 200, body = ResultBody ?r\<rparr>"
    using GET_resolved [OF resolve_510300, of host unreachable] by (simp add: kline none)
  have records: "yearlyDividends ?r = yearlyRecords host bars_2020 []"
    by (simp add: analysisResult_def Let_def)
  have years: "map YearlyDividend.year (yearlyDividends ?r) = [Fin 2020]"
    and totals: "map totalDividend (yearlyDividends ?r) = [Fin 0]"
    unfolding records
    by (simp_all add: bars_2020_def route_defs host_defs string_defs number_defs Let_def)
  have has: "hasDividends ?r"
    using one_record_per_price_year [OF get] by blast
  show ?thesis
    by (rule exI [of _ ?r]) (simp add: get years totals has)
qed

end
